theory Spec2Isabelle
  imports Main "HOL-Library.Char_ord" "HOL-Library.List_Lexorder" "HOL-Library.Multiset"
begin

section \<open>Data model of \<^verbatim>\<open>Source.cpp\<close>\<close>

text \<open>
  \<^verbatim>\<open>text\<close> (here \<open>text_t\<close>) and \<^verbatim>\<open>anagram_key\<close> are \<^verbatim>\<open>std::basic_string<char>\<close>: sequences of 8-bit
  code units, here \<^typ>\<open>char list\<close>.

  \<^verbatim>\<open>text_set\<close> is \<^verbatim>\<open>std::set<text>\<close>. It is modelled by the sequence its iterator
  yields: the entries in ascending order of \<^verbatim>\<open>std::less<std::string>\<close>, which compares
  lexicographically on the code units read as unsigned values (the order of
  \<^verbatim>\<open>List_Lexorder\<close> over \<^verbatim>\<open>Char_ord\<close>).

  \<^verbatim>\<open>anagram_dictionary\<close> is \<^verbatim>\<open>std::map<anagram_key, text_set>\<close>: a finite map from keys
  to groups. No function of the program iterates over the dictionary, so it is modelled
  by its lookup function.
\<close>

type_synonym anagram_key = string

type_synonym text_t = string

type_synonym text_set = "text_t list"

type_synonym anagram_dictionary = "anagram_key \<rightharpoonup> text_set"

section \<open>Character classification\<close>

text \<open>
  \<^verbatim>\<open>std::isalnum\<close> and \<^verbatim>\<open>std::tolower\<close> of \<^verbatim>\<open><cctype>\<close> in the default \<^verbatim>\<open>"C"\<close> locale (the
  program never calls \<^verbatim>\<open>setlocale\<close>): the alphanumeric characters are the ASCII digits
  and letters, and only \<^verbatim>\<open>A\<close>..\<^verbatim>\<open>Z\<close> change under \<^verbatim>\<open>tolower\<close>. The argument is the code
  unit's value; a code unit above 127 is in no class of the \<^verbatim>\<open>"C"\<close> locale. (Where \<^verbatim>\<open>char\<close> is
  signed, the source passes such a code unit as a negative \<^verbatim>\<open>int\<close>, which the library
  leaves undefined; the model classifies it as not alphanumeric.) The \<^verbatim>\<open>int\<close> that
  \<^verbatim>\<open>tolower\<close> returns is stored back into a \<^verbatim>\<open>char\<close>; it always fits.
\<close>

definition isdigit :: "char \<Rightarrow> bool" where
  "isdigit c = (let n = (of_char c :: nat) in 48 \<le> n \<and> n \<le> 57)"

definition isupper :: "char \<Rightarrow> bool" where
  "isupper c = (let n = (of_char c :: nat) in 65 \<le> n \<and> n \<le> 90)"

definition islower :: "char \<Rightarrow> bool" where
  "islower c = (let n = (of_char c :: nat) in 97 \<le> n \<and> n \<le> 122)"

definition isalnum :: "char \<Rightarrow> bool" where
  "isalnum c = (isdigit c \<or> isupper c \<or> islower c)"

definition tolower :: "char \<Rightarrow> char" where
  "tolower c = (if isupper c then char_of ((of_char c :: nat) + 32) else c)"

section \<open>Library operations used by the program\<close>

text \<open>
  \<^verbatim>\<open>std::ranges::copy_if(text, std::back_inserter(key), pred)\<close>: walks the input from
  front to back and appends (\<^verbatim>\<open>push_back\<close>) each element that satisfies the predicate
  to the output.
\<close>

fun copy_if :: "('a \<Rightarrow> bool) \<Rightarrow> 'a list \<Rightarrow> 'a list \<Rightarrow> 'a list" where
  "copy_if p [] out = out"
| "copy_if p (c # cs) out = copy_if p cs (if p c then out @ [c] else out)"

text \<open>
  \<^verbatim>\<open>std::transform(begin(key), end(key), begin(key), op)\<close>: overwrites every element
  with its image, front to back.
\<close>

fun transform :: "('a \<Rightarrow> 'a) \<Rightarrow> 'a list \<Rightarrow> 'a list" where
  "transform f [] = []"
| "transform f (c # cs) = f c # transform f cs"

text \<open>
  \<^verbatim>\<open>std::ranges::sort(key)\<close> orders the code units by \<^verbatim>\<open><\<close> on \<^verbatim>\<open>char\<close>. The key holds only
  values below 128 at that point, where signed and unsigned \<^verbatim>\<open>char\<close> agree with the
  order of \<^verbatim>\<open>Char_ord\<close>. Equal code units are indistinguishable, so
  the result of any sorting algorithm is the one of \<^const>\<open>sort\<close>.
\<close>

definition ranges_sort :: "string \<Rightarrow> string" where
  "ranges_sort key = sort key"

text \<open>
  \<^verbatim>\<open>std::set::insert\<close>: returns whether the element was inserted; an element that is
  already present leaves the set as it is, a new one goes to its place in the order.
\<close>

definition set_insert :: "text_t \<Rightarrow> text_set \<Rightarrow> text_set \<times> bool" where
  "set_insert t s = (if t \<in> set s then (s, False) else (insort t s, True))"

text \<open>
  \<^verbatim>\<open>std::map::operator[]\<close>: a reference to the value stored under the key; an absent key
  is first inserted with a value-initialised (empty) group. The model returns the map
  after that step and the group the reference points to.
\<close>

definition map_subscript :: "anagram_dictionary \<Rightarrow> anagram_key \<Rightarrow> anagram_dictionary \<times> text_set" where
  "map_subscript dictionary key =
     (case dictionary key of
        None \<Rightarrow> (dictionary(key \<mapsto> []), [])
      | Some entries \<Rightarrow> (dictionary, entries))"

text \<open>\<^verbatim>\<open>std::map::find\<close> on a \<^verbatim>\<open>const\<close> map: the entry, or \<^verbatim>\<open>end()\<close> (here \<^const>\<open>None\<close>).\<close>

definition map_find :: "anagram_dictionary \<Rightarrow> anagram_key \<Rightarrow> text_set option" where
  "map_find dictionary key = dictionary key"

section \<open>The program\<close>

text \<open>
  \<^verbatim>\<open>compute_anagram\<close>: \<^verbatim>\<open>std::nullopt\<close> is \<^const>\<open>None\<close>. The calls to \<^verbatim>\<open>spdlog\<close> write to
  the log only and are left out.
\<close>

definition compute_anagram :: "text_t \<Rightarrow> anagram_key option" where
  "compute_anagram text =
     (let key = copy_if isalnum text [] in
      if key = [] then None
      else Some (ranges_sort (transform tolower key)))"

text \<open>
  \<^verbatim>\<open>insert_into_anagram_dictionary\<close> mutates the dictionary it receives by reference;
  the model returns the dictionary after the call together with the returned flag.
\<close>

definition insert_into_anagram_dictionary ::
    "anagram_dictionary \<Rightarrow> text_t \<Rightarrow> anagram_dictionary \<times> bool" where
  "insert_into_anagram_dictionary dictionary text =
     (case compute_anagram text of
        None \<Rightarrow> (dictionary, False)
      | Some key \<Rightarrow>
          (let (dictionary1, entries) = map_subscript dictionary key;
               (entries1, inserted) = set_insert text entries
           in (dictionary1(key \<mapsto> entries1), inserted)))"

text \<open>
  \<^verbatim>\<open>fetch_matching_anagrams\<close> receives the dictionary by \<^verbatim>\<open>const\<close> reference and reads it
  through \<^verbatim>\<open>find\<close> only. The model still returns the dictionary after the call, so that
  the absence of an effect is a statement about the function.
\<close>

definition fetch_matching_anagrams ::
    "anagram_dictionary \<Rightarrow> text_t \<Rightarrow> anagram_dictionary \<times> text_set option" where
  "fetch_matching_anagrams dictionary text =
     (case compute_anagram text of
        None \<Rightarrow> (dictionary, None)
      | Some key \<Rightarrow>
          (case map_find dictionary key of
             None \<Rightarrow> (dictionary, None)
           | Some entries \<Rightarrow> (dictionary, if entries \<noteq> [] then Some entries else None)))"

section \<open>Clients of the dictionary\<close>

text \<open>
  A client holds one dictionary and calls the two operations on it in any order (as
  \<^verbatim>\<open>main\<close> does, through \<^verbatim>\<open>load_dictionary\<close> and \<^verbatim>\<open>report_matching_anagrams\<close>). A call is
  an \<open>operation\<close> with its argument; \<open>perform\<close> is the dictionary the call leaves.
\<close>

datatype operation = Insert text_t | Lookup text_t

fun perform :: "anagram_dictionary \<Rightarrow> operation \<Rightarrow> anagram_dictionary" where
  "perform dictionary (Insert text) = fst (insert_into_anagram_dictionary dictionary text)"
| "perform dictionary (Lookup text) = fst (fetch_matching_anagrams dictionary text)"

section \<open>The library operations, characterised\<close>

lemma copy_if_filter: "copy_if p xs out = out @ filter p xs"
  by (induction xs arbitrary: out) simp_all

lemma transform_map: "transform f xs = map f xs"
  by (induction xs) simp_all

lemma sort_eq_iff_mset: "sort xs = sort ys \<longleftrightarrow> mset xs = mset ys"
proof
  assume "sort xs = sort ys"
  then have "mset (sort xs) = mset (sort ys)" by simp
  then show "mset xs = mset ys" by simp
next
  assume "mset xs = mset ys"
  then have "mset (sort ys) = mset xs" by simp
  then show "sort xs = sort ys"
    by (rule properties_for_sort) simp
qed

lemma sorted_code_points: "sorted (map (of_char :: char \<Rightarrow> nat) k) \<longleftrightarrow> sorted k"
  by (induction k) (auto simp: less_eq_char_def)

text \<open>The representation of a \<^verbatim>\<open>std::set\<close> (ascending, no duplicates) is kept by \<^verbatim>\<open>insert\<close>.\<close>

lemma set_insert_keeps_order:
  "sorted s \<Longrightarrow> distinct s \<Longrightarrow> sorted (fst (set_insert t s)) \<and> distinct (fst (set_insert t s))"
  by (simp add: set_insert_def sorted_insort distinct_insort)

section \<open>The key\<close>

lemma anagram_key_unfold:
  "compute_anagram t =
     (if filter isalnum t = [] then None else Some (sort (map tolower (filter isalnum t))))"
  by (simp add: compute_anagram_def copy_if_filter transform_map ranges_sort_def)

lemma key_of_filtered_eq_iff:
  "(if xs = [] then None else Some (sort (map f xs))) =
   (if ys = [] then None else Some (sort (map f ys)))
   \<longleftrightarrow> mset (map f xs) = mset (map f ys)"
proof (cases "xs = []")
  case True
  then show ?thesis by (cases "ys = []") auto
next
  case False
  then show ?thesis by (cases "ys = []") (auto simp: sort_eq_iff_mset)
qed

lemma hash_unusable: "compute_anagram ''###'' = None"
  by code_simp

text \<open>
  C1. Two texts have the same result of \<^verbatim>\<open>compute_anagram\<close> if and only if their
  alphanumeric characters, folded to lower case, form the same multiset. The equation is
  between the optional results, so it covers two usable keys (equal keys, equal non-empty
  multisets), one usable and one unusable text (different results, different multisets)
  and two unusable texts (no key for either, both multisets empty).
\<close>

theorem same_key_iff_same_multiset:
  "compute_anagram a = compute_anagram b \<longleftrightarrow>
     mset (map tolower (filter isalnum a)) = mset (map tolower (filter isalnum b))"
  unfolding anagram_key_unfold by (rule key_of_filtered_eq_iff)

theorem same_key_iff_same_multiset_witness:
  "compute_anagram ''God!'' = compute_anagram ''d o g''
   \<and> compute_anagram ''God!'' = Some ''dgo''
   \<and> compute_anagram ''dog'' \<noteq> compute_anagram ''dug''"
  using same_key_iff_same_multiset [of "''God!''" "''d o g''"]
        same_key_iff_same_multiset [of "''dog''" "''dug''"]
  by code_simp

text \<open>
  C2. \<^verbatim>\<open>compute_anagram\<close> keeps the alphanumeric characters of the text; when none is
  left the result is \<^verbatim>\<open>std::nullopt\<close>; otherwise it is the kept characters, folded to lower
  case and sorted. A returned key is ascending in the code points of its characters and
  is a rearrangement of the folded, kept characters.
\<close>

theorem compute_anagram_filter_fold_sort:
  "compute_anagram t =
     (if filter isalnum t = [] then None
      else Some (sort (map tolower (filter isalnum t))))
   \<and> (\<forall>k. compute_anagram t = Some k \<longrightarrow>
          sorted (map (of_char :: char \<Rightarrow> nat) k)
        \<and> mset k = mset (map tolower (filter isalnum t)))"
  by (auto simp: anagram_key_unfold sorted_code_points)

theorem compute_anagram_filter_fold_sort_witness:
  "compute_anagram ''*Cat9*'' = Some ''9act''
   \<and> sorted (map (of_char :: char \<Rightarrow> nat) ''9act'')
   \<and> filter isalnum ''*Cat9*'' = ''Cat9''
   \<and> compute_anagram ''* *'' = None"
proof -
  have k: "compute_anagram ''*Cat9*'' = Some ''9act''" by code_simp
  have f: "filter isalnum ''*Cat9*'' = ''Cat9''" by code_simp
  have n: "compute_anagram ''* *'' = None" by code_simp
  from compute_anagram_filter_fold_sort [of "''*Cat9*''"] k
  have "sorted (map (of_char :: char \<Rightarrow> nat) ''9act'')" by blast
  with k f n show ?thesis by blast
qed

text \<open>
  C9. A canonical key is its own key: for a non-empty text whose characters are all
  alphanumeric, none of them upper case, and in ascending order, \<^verbatim>\<open>compute_anagram\<close>
  returns the text.
\<close>

theorem compute_anagram_canonical_key:
  assumes "k \<noteq> []"
    and "list_all isalnum k"
    and "list_all (\<lambda>c. \<not> isupper c) k"
    and "sorted k"
  shows "compute_anagram k = Some k"
proof -
  from assms(2) have f: "filter isalnum k = k"
    by (simp add: filter_id_conv list_all_iff)
  from assms(3) have m: "map tolower k = k"
    by (simp add: map_idI tolower_def list_all_iff)
  from assms(4) have s: "sort k = k"
    by (rule sort_key_id_if_sorted [where f = "\<lambda>x. x", simplified])
  show ?thesis
    using assms(1) by (simp add: anagram_key_unfold f m s)
qed

theorem compute_anagram_canonical_key_witness:
  "''9act'' \<noteq> [] \<and> list_all isalnum ''9act'' \<and> list_all (\<lambda>c. \<not> isupper c) ''9act''
   \<and> sorted ''9act'' \<and> compute_anagram ''9act'' = Some ''9act''"
proof -
  have h1: "''9act'' \<noteq> []" by simp
  have h2: "list_all isalnum ''9act''" by code_simp
  have h3: "list_all (\<lambda>c. \<not> isupper c) ''9act''" by code_simp
  have h4: "sorted ''9act''" by simp
  from compute_anagram_canonical_key [OF h1 h2 h3 h4] h1 h2 h3 h4 show ?thesis by blast
qed

section \<open>Insertion and lookup\<close>

lemma insert_usable:
  assumes "compute_anagram t = Some k"
  shows "insert_into_anagram_dictionary d t =
     (case d k of
        None \<Rightarrow> (d(k \<mapsto> [t]), True)
      | Some g \<Rightarrow> if t \<in> set g then (d, False) else (d(k \<mapsto> insort t g), True))"
  using assms
  by (auto simp: insert_into_anagram_dictionary_def map_subscript_def set_insert_def
           split: option.splits)

lemma insert_unusable:
  "compute_anagram t = None \<Longrightarrow> insert_into_anagram_dictionary d t = (d, False)"
  by (simp add: insert_into_anagram_dictionary_def)

lemma fetch_fst: "fst (fetch_matching_anagrams d t) = d"
  by (simp add: fetch_matching_anagrams_def split: option.splits)

lemma fetch_snd:
  "snd (fetch_matching_anagrams d t) =
     (case compute_anagram t of
        None \<Rightarrow> None
      | Some k \<Rightarrow> (case d k of None \<Rightarrow> None | Some g \<Rightarrow> if g = [] then None else Some g))"
  by (simp add: fetch_matching_anagrams_def map_find_def split: option.splits)

text \<open>
  C3. Let the text have the usable key \<open>k\<close>. When the dictionary has no group under
  \<open>k\<close>, the insertion stores the group holding just the text and returns true. When it
  has one and the text is in it, the insertion returns false and the dictionary is the
  one before; when the text is not in it, the insertion returns true and the group gains
  the text as it was given, and nothing else. Inserting the text twice into the empty
  dictionary returns true, then false, and the group under \<open>k\<close> is then the text alone.
\<close>

theorem insert_usable_text:
  assumes "compute_anagram t = Some k"
  shows "(case d k of
            None \<Rightarrow> insert_into_anagram_dictionary d t = (d(k \<mapsto> [t]), True)
          | Some g \<Rightarrow>
              if t \<in> set g then insert_into_anagram_dictionary d t = (d, False)
              else insert_into_anagram_dictionary d t = (d(k \<mapsto> insort t g), True)
                 \<and> set (insort t g) = insert t (set g))
       \<and> (let (d1, r1) = insert_into_anagram_dictionary Map.empty t;
               (d2, r2) = insert_into_anagram_dictionary d1 t
           in r1 = True \<and> r2 = False
            \<and> (case d2 k of None \<Rightarrow> False | Some g \<Rightarrow> g = [t] \<and> length g = 1))"
  by (simp add: insert_usable [OF assms] set_insort_key split: option.splits)

theorem insert_usable_text_witness:
  "compute_anagram ''god'' = Some ''dgo''
   \<and> insert_into_anagram_dictionary (Map.empty(''dgo'' \<mapsto> [''dog''])) ''god''
       = (Map.empty(''dgo'' \<mapsto> [''dog'', ''god'']), True)"
proof -
  have k: "compute_anagram ''god'' = Some ''dgo''" by code_simp
  show ?thesis
    using k insert_usable_text [OF k, of "Map.empty(''dgo'' \<mapsto> [''dog''])"] by simp
qed

text \<open>
  C4. For a text without a usable key, the insertion returns false and the dictionary
  is the one before. \<^verbatim>\<open>"###"\<close> is such a text. The function has no failing branch.
\<close>

theorem insert_unusable_text_refused:
  "(compute_anagram t = None \<longrightarrow> insert_into_anagram_dictionary d t = (d, False))
   \<and> compute_anagram ''###'' = None
   \<and> insert_into_anagram_dictionary d ''###'' = (d, False)"
  by (simp add: insert_unusable hash_unusable)

theorem insert_unusable_text_refused_witness:
  "compute_anagram ''?!'' = None
   \<and> insert_into_anagram_dictionary (Map.empty(''dgo'' \<mapsto> [''dog''])) ''?!''
       = (Map.empty(''dgo'' \<mapsto> [''dog'']), False)"
proof -
  have n: "compute_anagram ''?!'' = None" by code_simp
  show ?thesis
    using n insert_unusable_text_refused [of "''?!''" "Map.empty(''dgo'' \<mapsto> [''dog''])"]
    by simp
qed

text \<open>
  C5. The lookup returns \<^verbatim>\<open>std::nullopt\<close> exactly when the query has no usable key, or
  the dictionary has no group under the key, or the group under the key is empty. It
  never returns an empty group, and for \<^verbatim>\<open>"###"\<close> it returns \<^verbatim>\<open>std::nullopt\<close> on every
  dictionary.
\<close>

theorem fetch_no_match_iff:
  "(snd (fetch_matching_anagrams d t) = None \<longleftrightarrow>
      compute_anagram t = None
    \<or> (\<exists>k. compute_anagram t = Some k \<and> (d k = None \<or> d k = Some [])))
   \<and> snd (fetch_matching_anagrams d t) \<noteq> Some []
   \<and> snd (fetch_matching_anagrams d ''###'') = None"
  by (auto simp: fetch_snd hash_unusable split: option.splits)

theorem fetch_no_match_iff_witness:
  "snd (fetch_matching_anagrams (Map.empty(''dgo'' \<mapsto> [])) ''God'') = None
   \<and> snd (fetch_matching_anagrams (Map.empty(''dgo'' \<mapsto> [''dog''])) ''God'') \<noteq> None"
proof -
  have k: "compute_anagram ''God'' = Some ''dgo''" by code_simp
  show ?thesis
    using k fetch_no_match_iff [of "Map.empty(''dgo'' \<mapsto> [])" "''God''"]
            fetch_no_match_iff [of "Map.empty(''dgo'' \<mapsto> [''dog''])" "''God''"]
    by simp
qed

text \<open>
  C7. The lookup leaves the dictionary as it was. In particular, a lookup that finds
  nothing stores no group under the key of the query, and the set of keys is the one
  before.
\<close>

theorem fetch_leaves_dictionary:
  "fst (fetch_matching_anagrams d t) = d
   \<and> (compute_anagram t = Some k \<and> d k = None \<longrightarrow>
        fst (fetch_matching_anagrams d t) k = None)
   \<and> (snd (fetch_matching_anagrams d t) = None \<longrightarrow>
        dom (fst (fetch_matching_anagrams d t)) = dom d)"
  by (simp add: fetch_fst)

theorem fetch_leaves_dictionary_witness:
  "compute_anagram ''cat'' = Some ''act''
   \<and> (Map.empty(''dgo'' \<mapsto> [''dog''])) ''act'' = None
   \<and> snd (fetch_matching_anagrams (Map.empty(''dgo'' \<mapsto> [''dog''])) ''cat'') = None
   \<and> fst (fetch_matching_anagrams (Map.empty(''dgo'' \<mapsto> [''dog''])) ''cat'') ''act'' = None
   \<and> dom (fst (fetch_matching_anagrams (Map.empty(''dgo'' \<mapsto> [''dog''])) ''cat'')) = {''dgo''}"
proof -
  have k: "compute_anagram ''cat'' = Some ''act''" by code_simp
  have n: "snd (fetch_matching_anagrams (Map.empty(''dgo'' \<mapsto> [''dog''])) ''cat'') = None"
    by (simp add: fetch_snd k)
  show ?thesis
    using k n fetch_leaves_dictionary [of "Map.empty(''dgo'' \<mapsto> [''dog''])" "''cat''" "''act''"]
    by simp
qed

text \<open>
  C10. When the insertion of a text returns true, the lookup of the same text in the
  dictionary it leaves returns a group, and the text, as it was given, is in that group.
\<close>

theorem insert_then_fetch:
  assumes "insert_into_anagram_dictionary d t = (d', True)"
  shows "\<exists>g. snd (fetch_matching_anagrams d' t) = Some g \<and> t \<in> set g"
proof (cases "compute_anagram t")
  case None
  with assms show ?thesis by (simp add: insert_unusable)
next
  case (Some k)
  with assms show ?thesis
    by (auto simp: insert_usable [OF Some] fetch_snd set_insort_key
             split: option.splits if_splits)
qed

theorem insert_then_fetch_witness:
  "insert_into_anagram_dictionary Map.empty ''C A T'' = (Map.empty(''act'' \<mapsto> [''C A T'']), True)
   \<and> (\<exists>g. snd (fetch_matching_anagrams (Map.empty(''act'' \<mapsto> [''C A T''])) ''C A T'') = Some g
          \<and> ''C A T'' \<in> set g)"
proof -
  have k: "compute_anagram ''C A T'' = Some ''act''" by code_simp
  have i: "insert_into_anagram_dictionary Map.empty ''C A T''
             = (Map.empty(''act'' \<mapsto> [''C A T'']), True)"
    by (simp add: insert_usable [OF k])
  from insert_then_fetch [OF i] i show ?thesis by blast
qed

section \<open>The invariant of the dictionary\<close>

lemma perform_nonempty:
  assumes "\<And>k g. d k = Some g \<Longrightarrow> g \<noteq> []" and "perform d op k = Some g"
  shows "g \<noteq> []"
proof (cases op)
  case (Insert t)
  show ?thesis
  proof (cases "compute_anagram t")
    case None
    with Insert assms show ?thesis by (auto simp: insert_unusable)
  next
    case (Some k')
    with Insert assms show ?thesis
      by (auto simp: insert_usable [OF Some] split: option.splits if_splits)
  qed
next
  case (Lookup t)
  with assms show ?thesis by (auto simp: fetch_fst)
qed

lemma foldl_perform_nonempty:
  assumes "\<And>k g. d k = Some g \<Longrightarrow> g \<noteq> []"
  shows "foldl perform d ops k = Some g \<Longrightarrow> g \<noteq> []"
  using assms
proof (induction ops arbitrary: d k g)
  case Nil
  then show ?case by simp
next
  case (Cons op ops)
  have "\<And>k g. perform d op k = Some g \<Longrightarrow> g \<noteq> []"
    using Cons.prems(2) by (rule perform_nonempty)
  with Cons.IH [of "perform d op" k g] Cons.prems(1) show ?case by simp
qed

text \<open>
  C6. In the dictionary that any sequence of insertions and lookups leaves, started on
  the empty dictionary, every group stored under a key is non-empty.
\<close>

theorem reachable_groups_nonempty:
  "foldl perform Map.empty ops k = Some g \<Longrightarrow> g \<noteq> []"
  by (rule foldl_perform_nonempty [of Map.empty]) simp_all

theorem reachable_groups_nonempty_witness:
  "foldl perform Map.empty [Insert ''god'', Lookup ''cat'', Insert ''###'', Insert ''dog'']
     ''dgo'' = Some [''dog'', ''god'']
   \<and> [''dog'', ''god''] \<noteq> []"
proof -
  have r: "foldl perform Map.empty
             [Insert ''god'', Lookup ''cat'', Insert ''###'', Insert ''dog''] ''dgo''
           = Some [''dog'', ''god'']"
    by code_simp
  from reachable_groups_nonempty [OF r] r show ?thesis by blast
qed

section \<open>The scenario of the seeded dictionary\<close>

text \<open>
  C8. After the insertion of \<^verbatim>\<open>"god"\<close>, \<^verbatim>\<open>"dog"\<close>, \<^verbatim>\<open>"act"\<close> and \<^verbatim>\<open>"bob"\<close> into the empty
  dictionary, the lookup of \<^verbatim>\<open>"GOD"\<close> returns the group of \<^verbatim>\<open>"dog"\<close> and \<^verbatim>\<open>"god"\<close>, iterated in
  that (lexicographic) order; the lookups of \<^verbatim>\<open>"cat"\<close> and of \<^verbatim>\<open>"act"\<close> return the group of
  \<^verbatim>\<open>"act"\<close> alone, and the lookup of \<^verbatim>\<open>"bob"\<close> the group of \<^verbatim>\<open>"bob"\<close> alone.
\<close>

theorem scenario_god_dog_act_bob:
  "(let d = foldl (\<lambda>d t. fst (insert_into_anagram_dictionary d t)) Map.empty
              [''god'', ''dog'', ''act'', ''bob'']
    in snd (fetch_matching_anagrams d ''GOD'') = Some [''dog'', ''god'']
     \<and> snd (fetch_matching_anagrams d ''cat'') = Some [''act'']
     \<and> snd (fetch_matching_anagrams d ''act'') = Some [''act'']
     \<and> snd (fetch_matching_anagrams d ''bob'') = Some [''bob''])"
  by code_simp

end
